theory Spec2Isabelle
  imports Main
begin

section \<open>The typed configuration store \<open>core::Config\<close>\<close>

text \<open>
  The store of \<^verbatim>\<open>core/utils.hpp\<close> and \<^verbatim>\<open>core/utils.cpp\<close> keeps, under string keys,
  values whose static type has been erased: every entry holds a \<^verbatim>\<open>shared_ptr<void>\<close> to the
  value and the \<^verbatim>\<open>std::type_index\<close> of its decayed type. Reading an entry compares the type
  index of the decayed requested type with the stored one.
\<close>

subsection \<open>C++ types, \<open>std::decay\<close> and \<open>typeid\<close>\<close>

text \<open>
  A template argument is a possibly reference-qualified type. Below the reference sits a
  named type (\<^verbatim>\<open>void\<close>, a fundamental type or a class, by name) or a pointer, each with its
  own top-level cv-qualifiers, or an array (its qualifiers are those of its elements), or a
  function type (identified by its signature). A name is the one canonical name of its type
  (an alias names the type it stands for). There are no references to references and no
  pointers to references, so every C++ type has exactly one representation.
\<close>

datatype cv = CV (is_const: bool) (is_volatile: bool)

abbreviation unqualified :: cv where
  "unqualified \<equiv> CV False False"

datatype type_expr =
    Named cv string
  | Pointer cv type_expr
  | Array type_expr "nat option"
  | Function string

datatype ref_qualifier = NoRef | LvalueRef | RvalueRef

datatype cpp_type = Ty ref_qualifier type_expr

fun remove_reference :: "cpp_type \<Rightarrow> cpp_type" where
  "remove_reference (Ty r t) = Ty NoRef t"

fun remove_cv_expr :: "type_expr \<Rightarrow> type_expr" where
  "remove_cv_expr (Named q n) = Named unqualified n"
| "remove_cv_expr (Pointer q t) = Pointer unqualified t"
| "remove_cv_expr (Array t n) = Array (remove_cv_expr t) n"
| "remove_cv_expr (Function f) = Function f"

fun remove_cv :: "cpp_type \<Rightarrow> cpp_type" where
  "remove_cv (Ty r t) = (case r of NoRef \<Rightarrow> Ty r (remove_cv_expr t) | _ \<Rightarrow> Ty r t)"

text \<open>\<^verbatim>\<open>std::is_array\<close> and \<^verbatim>\<open>std::is_function\<close> are false on reference types.\<close>

fun is_array :: "cpp_type \<Rightarrow> bool" where
  "is_array (Ty NoRef (Array t n)) = True"
| "is_array _ = False"

fun is_function :: "cpp_type \<Rightarrow> bool" where
  "is_function (Ty NoRef (Function f)) = True"
| "is_function _ = False"

text \<open>
  \<^verbatim>\<open>std::decay<T>::type\<close>: with \<open>U\<close> the type \<open>T\<close> without its reference, an array
  \<open>U\<close> gives the pointer to its element type, a function \<open>U\<close> the pointer to it, and any other
  \<open>U\<close> loses its top-level cv-qualifiers.
\<close>

fun decay_expr :: "type_expr \<Rightarrow> type_expr" where
  "decay_expr (Array t n) = Pointer unqualified t"
| "decay_expr (Function f) = Pointer unqualified (Function f)"
| "decay_expr t = remove_cv_expr t"

fun decay :: "cpp_type \<Rightarrow> cpp_type" where
  "decay (Ty r t) = Ty NoRef (decay_expr t)"

text \<open>
  \<^verbatim>\<open>std::type_index(typeid(T))\<close> identifies a type; \<^verbatim>\<open>typeid\<close> looks through a reference
  and ignores top-level cv-qualifiers. Two type indices are equal exactly when they stand for
  the same type.
\<close>

type_synonym type_index = cpp_type

definition typeid :: "cpp_type \<Rightarrow> type_index" where
  "typeid T = remove_cv (remove_reference T)"

definition void :: cpp_type where
  "void = Ty NoRef (Named unqualified ''void'')"

subsection \<open>Values and errors\<close>

text \<open>
  Values are taken from an arbitrary universe \<open>'v\<close>. \<open>Decayed v\<close> is the pointer that the
  array-to-pointer or function-to-pointer conversion makes from the array or function \<open>v\<close>.
  \<^verbatim>\<open>std::make_shared<DecayedT>(std::forward<T>(value))\<close> builds the stored object from the
  argument: a copy of it, or that pointer when \<open>T\<close> is (a reference to) an array or function.
\<close>

datatype 'v val = Obj 'v | Decayed "'v val"

definition make_decayed :: "cpp_type \<Rightarrow> 'v val \<Rightarrow> 'v val" where
  "make_decayed T v =
     (if is_array (remove_reference T) \<or> is_function (remove_reference T)
      then Decayed v else v)"

text \<open>
  Both failures of the store are a \<^verbatim>\<open>std::runtime_error\<close>, told apart by their message.
  Dereferencing a null \<^verbatim>\<open>shared_ptr\<close> is kept as a separate outcome.
\<close>

datatype error = runtime_error string | null_dereference

definition TypeMismatchError :: error where
  "TypeMismatchError = runtime_error ''Type mismatch in Config::get()''"

definition KeyNotFoundError :: "string \<Rightarrow> error" where
  "KeyNotFoundError key = runtime_error (''Key not found: '' @ key)"

text \<open>
  An argument handed to \<^verbatim>\<open>set\<close> is a value together with what building the stored object
  from it throws, if it throws: the exception of the copy or move constructor that
  \<^verbatim>\<open>std::make_shared<DecayedT>(std::forward<T>(value))\<close> runs, or of its allocation.
\<close>

datatype 'v argument = Argument (arg_value: "'v val") (arg_throws: "error option")

subsection \<open>\<open>Config::ConfigValue\<close>\<close>

text \<open>
  The members \<^verbatim>\<open>data_\<close>, \<^verbatim>\<open>type_\<close> and \<^verbatim>\<open>values_\<close> are the fields \<open>m_data\<close>,
  \<open>m_type\<close> and \<open>m_values\<close>. A null \<^verbatim>\<open>data_\<close> is \<open>None\<close>.
\<close>

record 'v ConfigValue =
  m_data :: "'v val option"
  m_type :: type_index

text \<open>The default constructor, for container usage: no data, type index of \<^verbatim>\<open>void\<close>.\<close>

definition ConfigValue_default :: "'v ConfigValue" where
  "ConfigValue_default = \<lparr> m_data = None, m_type = typeid void \<rparr>"

text \<open>The converting constructor \<^verbatim>\<open>ConfigValue(T&& value)\<close>.\<close>

definition ConfigValue :: "cpp_type \<Rightarrow> 'v val \<Rightarrow> 'v ConfigValue" where
  "ConfigValue T v = \<lparr> m_data = Some (make_decayed T v), m_type = typeid (decay T) \<rparr>"

text \<open>\<^verbatim>\<open>ConfigValue::as<T>()\<close>.\<close>

definition ConfigValue_as :: "cpp_type \<Rightarrow> 'v ConfigValue \<Rightarrow> error + 'v val" where
  "ConfigValue_as T cv =
     (if m_type cv \<noteq> typeid (decay T) then Inl (runtime_error ''Type mismatch in Config::get()'')
      else case m_data cv of None \<Rightarrow> Inl null_dereference | Some v \<Rightarrow> Inr v)"



subsection \<open>\<open>Config\<close>\<close>

record 'v Config =
  m_values :: "string \<rightharpoonup> 'v ConfigValue"

text \<open>A newly created store has no entries.\<close>

definition Config_new :: "'v Config" where
  "Config_new = \<lparr> m_values = Map.empty \<rparr>"

text \<open>
  \<^verbatim>\<open>values_[key]\<close> of \<^verbatim>\<open>std::unordered_map\<close>: an absent key is first inserted with a
  default-constructed value.
\<close>

definition subscript :: "string \<Rightarrow> 'v Config \<Rightarrow> 'v Config" where
  "subscript key c =
     (case m_values c key of
        None \<Rightarrow> c\<lparr> m_values := (m_values c)(key \<mapsto> ConfigValue_default) \<rparr>
      | Some _ \<Rightarrow> c)"

text \<open>\<^verbatim>\<open>values_[key] = ConfigValue(std::forward<T>(value));\<close>\<close>

definition Config_set :: "cpp_type \<Rightarrow> string \<Rightarrow> 'v val \<Rightarrow> 'v Config \<Rightarrow> 'v Config" where
  "Config_set T key v c =
     (let entry = ConfigValue T v;
          c' = subscript key c
      in c'\<lparr> m_values := (m_values c')(key \<mapsto> entry) \<rparr>)"

text \<open>
  The reading member functions are \<^verbatim>\<open>const\<close>: they take the store and return no new one.
  What they return is modelled by its value, also where \<open>T\<close> is a reference type and the
  C++ function returns a reference to the stored object.
\<close>

definition Config_get :: "cpp_type \<Rightarrow> string \<Rightarrow> 'v Config \<Rightarrow> error + 'v val" where
  "Config_get T key c =
     (case m_values c key of
        None \<Rightarrow> Inl (runtime_error (''Key not found: '' @ key))
      | Some entry \<Rightarrow> ConfigValue_as T entry)"

definition Config_getOrDefault ::
    "cpp_type \<Rightarrow> string \<Rightarrow> 'v val \<Rightarrow> 'v Config \<Rightarrow> error + 'v val" where
  "Config_getOrDefault T key defaultValue c =
     (case m_values c key of
        None \<Rightarrow> Inr defaultValue
      | Some entry \<Rightarrow> ConfigValue_as T entry)"

definition Config_has :: "string \<Rightarrow> 'v Config \<Rightarrow> bool" where
  "Config_has key c = (m_values c key \<noteq> None)"

definition Config_remove :: "string \<Rightarrow> 'v Config \<Rightarrow> 'v Config" where
  "Config_remove key c = c\<lparr> m_values := (m_values c)(key := None) \<rparr>"

subsection \<open>Sequences of calls\<close>

text \<open>
  A caller's use of one store is a list of calls. A call that throws leaves the caller with the
  exception and the store; the caller catches it and goes on with the next call.

  \<^verbatim>\<open>Config::set\<close> evaluates \<^verbatim>\<open>ConfigValue(std::forward<T>(value))\<close> before
  \<^verbatim>\<open>values_[key]\<close>: what building the stored object throws leaves \<^verbatim>\<open>set\<close> with the store
  untouched. When nothing is thrown the store becomes \<open>Config_set T key v c\<close>.
\<close>

datatype 'v call =
    Set cpp_type string "'v argument"
  | Get cpp_type string
  | GetOrDefault cpp_type string "'v val"
  | Has string
  | Remove string

datatype 'v returned = Nothing | Truth bool | Value "'v val"

fun exec :: "'v call \<Rightarrow> 'v Config \<Rightarrow> (error + 'v returned) \<times> 'v Config" where
  "exec (Set T key a) c =
     (case arg_throws a of
        Some e \<Rightarrow> (Inl e, c)
      | None \<Rightarrow> (Inr Nothing, Config_set T key (arg_value a) c))"
| "exec (Get T key) c = (map_sum id Value (Config_get T key c), c)"
| "exec (GetOrDefault T key d) c = (map_sum id Value (Config_getOrDefault T key d c), c)"
| "exec (Has key) c = (Inr (Truth (Config_has key c)), c)"
| "exec (Remove key) c = (Inr Nothing, Config_remove key c)"

fun run :: "'v call list \<Rightarrow> 'v Config \<Rightarrow> 'v Config" where
  "run [] c = c"
| "run (x # xs) c = run xs (snd (exec x c))"

fun outcomes :: "'v call list \<Rightarrow> 'v Config \<Rightarrow> (error + 'v returned) list" where
  "outcomes [] c = []"
| "outcomes (x # xs) c = fst (exec x c) # outcomes xs (snd (exec x c))"

text \<open>
  What a history of calls says about a key, in the words of the specification: \<open>set\<close> was
  called for the key, and the calls after the last such \<open>set\<close> hold no \<open>remove\<close> of it.
\<close>

fun is_set_of :: "string \<Rightarrow> 'v call \<Rightarrow> bool" where
  "is_set_of k (Set T key v) = (key = k)"
| "is_set_of k _ = False"

fun is_remove_of :: "string \<Rightarrow> 'v call \<Rightarrow> bool" where
  "is_remove_of k (Remove key) = (key = k)"
| "is_remove_of k _ = False"

definition was_set :: "string \<Rightarrow> 'v call list \<Rightarrow> bool" where
  "was_set k calls = (\<exists>x \<in> set calls. is_set_of k x)"

definition after_last_set :: "string \<Rightarrow> 'v call list \<Rightarrow> 'v call list" where
  "after_last_set k calls = rev (takeWhile (\<lambda>x. \<not> is_set_of k x) (rev calls))"

definition removed_since :: "string \<Rightarrow> 'v call list \<Rightarrow> bool" where
  "removed_since k calls = (\<exists>x \<in> set (after_last_set k calls). is_remove_of k x)"

definition set_and_not_removed :: "string \<Rightarrow> 'v call list \<Rightarrow> bool" where
  "set_and_not_removed k calls = (was_set k calls \<and> \<not> removed_since k calls)"

text \<open>
  The same with the calls of \<open>set\<close> that returned in place of all calls of \<open>set\<close>: a \<open>set\<close>
  of the key returned, and the calls after the last \<open>set\<close> of it that returned hold no
  \<open>remove\<close> of it.
\<close>

fun is_returned_set_of :: "string \<Rightarrow> 'v call \<Rightarrow> bool" where
  "is_returned_set_of k (Set T key a) = (key = k \<and> arg_throws a = None)"
| "is_returned_set_of k _ = False"

definition set_returned :: "string \<Rightarrow> 'v call list \<Rightarrow> bool" where
  "set_returned k calls = (\<exists>x \<in> set calls. is_returned_set_of k x)"

definition after_last_returned_set :: "string \<Rightarrow> 'v call list \<Rightarrow> 'v call list" where
  "after_last_returned_set k calls =
     rev (takeWhile (\<lambda>x. \<not> is_returned_set_of k x) (rev calls))"

definition removed_since_returned_set :: "string \<Rightarrow> 'v call list \<Rightarrow> bool" where
  "removed_since_returned_set k calls =
     (\<exists>x \<in> set (after_last_returned_set k calls). is_remove_of k x)"

definition set_returned_and_not_removed :: "string \<Rightarrow> 'v call list \<Rightarrow> bool" where
  "set_returned_and_not_removed k calls =
     (set_returned k calls \<and> \<not> removed_since_returned_set k calls)"

subsection \<open>Some types\<close>

definition named :: "string \<Rightarrow> cpp_type" where
  "named n = Ty NoRef (Named unqualified n)"

text \<open>
  \<^verbatim>\<open>const T\<close>: the qualifier goes to the elements of an array and is ignored on functions and
  references. \<^verbatim>\<open>T&\<close>: a reference to a reference collapses to an lvalue reference.
\<close>

fun add_const_expr :: "type_expr \<Rightarrow> type_expr" where
  "add_const_expr (Named q n) = Named (CV True (is_volatile q)) n"
| "add_const_expr (Pointer q t) = Pointer (CV True (is_volatile q)) t"
| "add_const_expr (Array t n) = Array (add_const_expr t) n"
| "add_const_expr (Function f) = Function f"

fun add_const :: "cpp_type \<Rightarrow> cpp_type" where
  "add_const (Ty r t) = (case r of NoRef \<Rightarrow> Ty r (add_const_expr t) | _ \<Rightarrow> Ty r t)"





section \<open>Properties\<close>

subsection \<open>Types\<close>

lemma typeid_decay: "typeid (decay T) = decay T"
  by (cases T; cases "case T of Ty r t \<Rightarrow> t") (simp_all add: typeid_def)






subsection \<open>One call\<close>

lemma values_set: "m_values (Config_set T k v c) = (m_values c)(k \<mapsto> ConfigValue T v)"
  by (simp add: Config_set_def subscript_def Let_def split: option.splits)

lemma as_ConfigValue:
  "ConfigValue_as T' (ConfigValue T v) =
     (if decay T \<noteq> decay T' then Inl TypeMismatchError else Inr (make_decayed T v))"
  by (simp add: ConfigValue_as_def ConfigValue_def typeid_decay TypeMismatchError_def)


lemma as_not_key_not_found: "ConfigValue_as T e \<noteq> Inl (KeyNotFoundError k)"
  by (simp add: ConfigValue_as_def KeyNotFoundError_def split: option.splits)

lemma get_set_same:
  "Config_get T' k (Config_set T k v c) =
     (if decay T \<noteq> decay T' then Inl TypeMismatchError else Inr (make_decayed T v))"
  by (simp add: Config_get_def values_set as_ConfigValue)




lemma has_set: "Config_has k' (Config_set T k v c) = (k' = k \<or> Config_has k' c)"
  by (simp add: Config_has_def values_set)

lemma has_remove: "Config_has k' (Config_remove k c) = (k' \<noteq> k \<and> Config_has k' c)"
  by (simp add: Config_has_def Config_remove_def)

lemma get_absent: "\<not> Config_has k c \<Longrightarrow> Config_get T k c = Inl (KeyNotFoundError k)"
  by (simp add: Config_has_def Config_get_def KeyNotFoundError_def)

subsection \<open>Histories\<close>

lemma has_exec:
  "Config_has k (snd (exec x c)) =
     (is_returned_set_of k x \<or> (Config_has k c \<and> \<not> is_remove_of k x))"
  by (cases x) (auto simp: has_set has_remove split: option.splits)

lemma run_snoc: "run (xs @ [x]) c = snd (exec x (run xs c))"
  by (induction xs arbitrary: c) simp_all

lemma was_set_snoc: "was_set k (xs @ [x]) = (was_set k xs \<or> is_set_of k x)"
  by (auto simp: was_set_def)

lemma after_last_set_snoc:
  "after_last_set k (xs @ [x]) = (if is_set_of k x then [] else after_last_set k xs @ [x])"
  by (simp add: after_last_set_def)

lemma removed_since_snoc:
  "removed_since k (xs @ [x]) = (\<not> is_set_of k x \<and> (removed_since k xs \<or> is_remove_of k x))"
  unfolding removed_since_def after_last_set_snoc by auto

lemma set_returned_snoc:
  "set_returned k (xs @ [x]) = (set_returned k xs \<or> is_returned_set_of k x)"
  by (auto simp: set_returned_def)

lemma after_last_returned_set_snoc:
  "after_last_returned_set k (xs @ [x]) =
     (if is_returned_set_of k x then [] else after_last_returned_set k xs @ [x])"
  by (simp add: after_last_returned_set_def)

lemma removed_since_returned_set_snoc:
  "removed_since_returned_set k (xs @ [x]) =
     (\<not> is_returned_set_of k x \<and> (removed_since_returned_set k xs \<or> is_remove_of k x))"
  unfolding removed_since_returned_set_def after_last_returned_set_snoc by auto

lemma returned_set_is_set: "is_returned_set_of k x \<Longrightarrow> is_set_of k x"
  by (cases x) simp_all

text \<open>The calls of \<open>set\<close> that returned are those that \<open>exec\<close> lets return.\<close>

lemma returned_set_iff:
  "is_returned_set_of k x = (is_set_of k x \<and> fst (exec x c) = Inr Nothing)"
  by (cases x) (auto split: option.splits)

text \<open>The store reached from a new one holds a key exactly when the history says so.\<close>

lemma has_run: "Config_has k (run calls Config_new) = set_returned_and_not_removed k calls"
proof (induction calls rule: rev_induct)
  case Nil
  show ?case
    by (simp add: Config_has_def Config_new_def set_returned_and_not_removed_def
        set_returned_def)
next
  case (snoc x xs)
  have "Config_has k (run (xs @ [x]) Config_new) =
        (is_returned_set_of k x \<or> (set_returned_and_not_removed k xs \<and> \<not> is_remove_of k x))"
    by (simp add: run_snoc has_exec snoc.IH)
  also have "\<dots> = set_returned_and_not_removed k (xs @ [x])"
    by (auto simp: set_returned_and_not_removed_def set_returned_snoc
        removed_since_returned_set_snoc)
  finally show ?case .
qed

text \<open>
  A key that no call of \<open>set\<close> named, or that was removed after the last call of \<open>set\<close> that
  named it, is not the key of a \<open>set\<close> that returned and was not removed since.
\<close>

lemma not_set_not_stored:
  "\<not> was_set k calls \<or> removed_since k calls \<Longrightarrow> \<not> set_returned_and_not_removed k calls"
proof (induction calls rule: rev_induct)
  case Nil
  show ?case
    by (simp add: set_returned_and_not_removed_def set_returned_def)
next
  case (snoc x xs)
  from snoc.prems have no_set: "\<not> is_set_of k x"
    by (auto simp: was_set_snoc removed_since_snoc)
  then have no_store: "\<not> is_returned_set_of k x"
    using returned_set_is_set by blast
  show ?case
  proof (cases "is_remove_of k x")
    case True
    then show ?thesis
      by (simp add: set_returned_and_not_removed_def removed_since_returned_set_snoc no_store)
  next
    case False
    with snoc.prems no_set have "\<not> was_set k xs \<or> removed_since k xs"
      by (auto simp: was_set_snoc removed_since_snoc)
    then have "\<not> set_returned_and_not_removed k xs"
      by (rule snoc.IH)
    then show ?thesis
      by (auto simp: set_returned_and_not_removed_def set_returned_snoc
          removed_since_returned_set_snoc no_store)
  qed
qed

subsection \<open>Reading with another type\<close>

text \<open>
  Claim C1, as stated: after \<open>set\<close> of a key with a value of type \<open>T1\<close>, \<open>get<T2>\<close> of it
  fails with the type mismatch error for every \<open>T2\<close> other than \<open>T1\<close>. The store compares
  decayed types, so this fails where \<open>T2\<close> and \<open>T1\<close> differ in qualifiers only: after
  \<^verbatim>\<open>set("k", 5)\<close>, stored as \<^verbatim>\<open>int\<close>, the call \<^verbatim>\<open>get<const int>("k")\<close> returns 5.
\<close>

theorem get_const_int_of_int_succeeds:
  "add_const (named ''int'') \<noteq> named ''int'' \<and>
   Config_get (add_const (named ''int'')) ''k''
     (Config_set (named ''int'') ''k'' (Obj (5::int)) Config_new) = Inr (Obj 5) \<and>
   Config_get (add_const (named ''int'')) ''k''
     (Config_set (named ''int'') ''k'' (Obj (5::int)) Config_new) \<noteq> Inl TypeMismatchError"
  by (simp add: Config_get_def Config_set_def subscript_def Config_new_def ConfigValue_as_def
      ConfigValue_def typeid_def named_def make_decayed_def)

text \<open>
  Claim C1, amended: in every store, after \<open>set\<close> of key \<open>k\<close> with template argument \<open>T1\<close>,
  \<open>get<T2>(k)\<close> fails with the type mismatch error for every \<open>T2\<close> whose decayed type is not
  the decayed \<open>T1\<close>. Two distinct unqualified non-reference types, such as \<^verbatim>\<open>int\<close> and
  \<^verbatim>\<open>double\<close> or a class and its base, are their own decayed types: no numeric conversion and
  no inheritance makes them match.
\<close>

theorem get_other_decayed_type_mismatch:
  "decay T2 \<noteq> decay T1 \<Longrightarrow> Config_get T2 k (Config_set T1 k v c) = Inl TypeMismatchError"
  by (simp add: get_set_same)

theorem get_other_decayed_type_mismatch_witness:
  "decay (named ''std::string'') \<noteq> decay (named ''int'') \<and>
   Config_get (named ''std::string'') ''maxConnections''
     (Config_set (named ''int'') ''maxConnections'' (Obj (100::int)) Config_new)
   = Inl TypeMismatchError"
  using get_other_decayed_type_mismatch
    [of "named ''std::string''" "named ''int''" "''maxConnections''" "Obj (100::int)" Config_new]
  by (simp add: named_def)

subsection \<open>Reading back what was written\<close>




subsection \<open>Absent keys\<close>

text \<open>
  Claim C3: a key that the calls made on a new store never passed to \<open>set\<close>, or that they
  removed after its last \<open>set\<close>, is not in the store: \<open>has\<close> is false and \<open>get<T>\<close> fails
  with the key-not-found error, for every \<open>T\<close>.
\<close>

theorem absent_key_not_found:
  "\<not> was_set k calls \<or> removed_since k calls \<Longrightarrow>
   \<not> Config_has k (run calls Config_new) \<and>
   Config_get T k (run calls Config_new) = Inl (KeyNotFoundError k)"
proof -
  assume "\<not> was_set k calls \<or> removed_since k calls"
  then have "\<not> Config_has k (run calls Config_new)"
    by (simp add: has_run not_set_not_stored)
  then show ?thesis
    by (simp add: get_absent)
qed

theorem absent_key_not_found_witness:
  "removed_since ''debug''
     [Set (named ''bool'') ''debug'' (Argument (Obj True) None), Has ''debug'',
      Remove ''debug''] \<and>
   \<not> Config_has ''debug''
     (run [Set (named ''bool'') ''debug'' (Argument (Obj True) None), Has ''debug'',
           Remove ''debug''] Config_new) \<and>
   Config_get (named ''bool'') ''debug''
     (run [Set (named ''bool'') ''debug'' (Argument (Obj True) None), Has ''debug'',
           Remove ''debug''] Config_new)
   = Inl (KeyNotFoundError ''debug'')"
  using absent_key_not_found
    [of "''debug''"
        "[Set (named ''bool'') ''debug'' (Argument (Obj True) None), Has ''debug'',
          Remove ''debug'']"
        "named ''bool''"]
  by (simp add: removed_since_def after_last_set_def)

subsection \<open>Reading with a default\<close>

text \<open>
  Claim C4, as stated: \<open>getOrDefault<T>(k, d)\<close> returns \<open>d\<close> exactly when \<open>has(k)\<close> is
  false. It also returns \<open>d\<close> when the key is present and holds a value equal to \<open>d\<close>:
  after \<^verbatim>\<open>set("timeout", 30)\<close>, \<^verbatim>\<open>getOrDefault("timeout", 30)\<close> is 30 and \<open>has\<close> is true.
\<close>

theorem getOrDefault_present_returns_default_value:
  "Config_has ''timeout''
     (Config_set (named ''int'') ''timeout'' (Obj (30::int)) Config_new) \<and>
   Config_getOrDefault (named ''int'') ''timeout'' (Obj 30)
     (Config_set (named ''int'') ''timeout'' (Obj (30::int)) Config_new) = Inr (Obj 30)"
  by (simp add: Config_has_def Config_getOrDefault_def Config_set_def subscript_def
      Config_new_def ConfigValue_as_def ConfigValue_def typeid_def named_def make_decayed_def)

text \<open>
  Claim C4, amended: in every store, \<open>getOrDefault<T>(k, d)\<close> returns \<open>d\<close> when \<open>has(k)\<close> is
  false, and otherwise has the result of \<open>get<T>(k)\<close>, value or type mismatch error alike;
  it never fails with a key-not-found error.
\<close>

theorem getOrDefault_cases:
  "(\<not> Config_has k c \<longrightarrow> Config_getOrDefault T k d c = Inr d) \<and>
   (Config_has k c \<longrightarrow> Config_getOrDefault T k d c = Config_get T k c) \<and>
   Config_getOrDefault T k d c \<noteq> Inl (KeyNotFoundError k')"
  by (auto simp: Config_has_def Config_getOrDefault_def Config_get_def as_not_key_not_found
      split: option.splits)

theorem getOrDefault_cases_witness:
  "\<not> Config_has ''timeout'' (Config_new :: int Config) \<and>
   Config_getOrDefault (named ''int'') ''timeout'' (Obj (30::int)) Config_new = Inr (Obj 30) \<and>
   Config_has ''timeout''
     (Config_set (named ''int'') ''timeout'' (Obj (60::int)) Config_new) \<and>
   Config_getOrDefault (named ''int'') ''timeout'' (Obj 30)
     (Config_set (named ''int'') ''timeout'' (Obj (60::int)) Config_new) = Inr (Obj 60) \<and>
   Config_get (named ''int'') ''timeout''
     (Config_set (named ''int'') ''timeout'' (Obj (60::int)) Config_new) = Inr (Obj 60)"
proof -
  have absent: "\<not> Config_has ''timeout'' (Config_new :: int Config)"
    by (simp add: Config_has_def Config_new_def)
  have present:
    "Config_has ''timeout'' (Config_set (named ''int'') ''timeout'' (Obj (60::int)) Config_new)"
    by (simp add: has_set)
  have got:
    "Config_get (named ''int'') ''timeout''
       (Config_set (named ''int'') ''timeout'' (Obj (60::int)) Config_new) = Inr (Obj 60)"
    by (simp add: get_set_same make_decayed_def named_def)
  show ?thesis
    using getOrDefault_cases
        [of "''timeout''" "Config_new :: int Config" "named ''int''" "Obj 30" "''timeout''"]
      getOrDefault_cases
        [of "''timeout''" "Config_set (named ''int'') ''timeout'' (Obj (60::int)) Config_new"
            "named ''int''" "Obj 30" "''timeout''"]
      absent present got
    by simp
qed

subsection \<open>Presence follows the history\<close>

text \<open>
  Claim C5, as stated: after any list of calls on a new store, \<open>has(k)\<close> is true if and only
  if \<open>set\<close> was called for \<open>k\<close> and no \<open>remove(k)\<close> came after the last such \<open>set\<close>. A
  \<open>set\<close> whose argument cannot be copied into the store throws and stores nothing: after
  that one call \<open>set\<close> was called for the key and nothing removed it, and \<open>has\<close> is false.
\<close>

theorem has_false_after_throwing_set:
  "set_and_not_removed ''k''
     [Set (named ''Widget'') ''k''
        (Argument (Obj (1::int)) (Some (runtime_error ''copy failed'')))] \<and>
   \<not> Config_has ''k''
     (run [Set (named ''Widget'') ''k''
             (Argument (Obj (1::int)) (Some (runtime_error ''copy failed'')))] Config_new)"
  by (simp add: set_and_not_removed_def was_set_def removed_since_def after_last_set_def
      Config_has_def Config_new_def)

text \<open>
  Claim C5, amended: after any list of \<open>set\<close>, \<open>get\<close>, \<open>getOrDefault\<close>, \<open>has\<close> and
  \<open>remove\<close> calls on a new store, \<open>has(k)\<close> is true if and only if a call of \<open>set\<close> for
  \<open>k\<close> returned and no \<open>remove(k)\<close> came after the last call of \<open>set\<close> for \<open>k\<close> that
  returned.
\<close>

theorem has_iff_set_returned_and_not_removed:
  "Config_has k (run calls Config_new) = set_returned_and_not_removed k calls"
  by (rule has_run)

theorem has_iff_set_returned_and_not_removed_witness:
  "Config_has ''debug''
     (run [Set (named ''bool'') ''debug'' (Argument (Obj True) None),
           Set (named ''bool'') ''debug'' (Argument (Obj False) (Some (runtime_error ''no''))),
           Get (named ''int'') ''debug'', Remove ''other''] Config_new) \<and>
   set_returned_and_not_removed ''debug''
     [Set (named ''bool'') ''debug'' (Argument (Obj True) None),
      Set (named ''bool'') ''debug'' (Argument (Obj False) (Some (runtime_error ''no''))),
      Get (named ''int'') ''debug'', Remove ''other''] \<and>
   \<not> Config_has ''debug''
     (run [Set (named ''bool'') ''debug'' (Argument (Obj True) None), Remove ''debug'',
           Set (named ''bool'') ''debug'' (Argument (Obj False) (Some (runtime_error ''no''))),
           GetOrDefault (named ''bool'') ''debug'' (Obj False)] Config_new) \<and>
   \<not> set_returned_and_not_removed ''debug''
     [Set (named ''bool'') ''debug'' (Argument (Obj True) None), Remove ''debug'',
      Set (named ''bool'') ''debug'' (Argument (Obj False) (Some (runtime_error ''no''))),
      GetOrDefault (named ''bool'') ''debug'' (Obj False)]"
  using has_iff_set_returned_and_not_removed
      [of "''debug''"
          "[Set (named ''bool'') ''debug'' (Argument (Obj True) None),
            Set (named ''bool'') ''debug'' (Argument (Obj False) (Some (runtime_error ''no''))),
            Get (named ''int'') ''debug'', Remove ''other'']"]
    has_iff_set_returned_and_not_removed
      [of "''debug''"
          "[Set (named ''bool'') ''debug'' (Argument (Obj True) None), Remove ''debug'',
            Set (named ''bool'') ''debug'' (Argument (Obj False) (Some (runtime_error ''no''))),
            GetOrDefault (named ''bool'') ''debug'' (Obj False)]"]
  by (simp add: set_returned_and_not_removed_def set_returned_def
      removed_since_returned_set_def after_last_returned_set_def)

subsection \<open>Writing again with another type\<close>




subsection \<open>Removing\<close>

text \<open>
  Claim C7: in every store, after \<open>remove(k)\<close> the call \<open>has(k)\<close> is false; \<open>remove\<close> of an
  absent key leaves the store as it was and returns normally, as every \<open>remove\<close> does.
\<close>

theorem remove_then_absent:
  "\<not> Config_has k (Config_remove k c) \<and>
   (\<not> Config_has k c \<longrightarrow> Config_remove k c = c) \<and>
   fst (exec (Remove k) c) = Inr Nothing"
proof -
  have "\<not> Config_has k c \<longrightarrow> Config_remove k c = c"
    by (simp add: Config_has_def Config_remove_def fun_upd_idem)
  then show ?thesis
    by (simp add: has_remove)
qed

theorem remove_then_absent_witness:
  "\<not> Config_has ''debug''
     (Config_remove ''debug'' (Config_set (named ''bool'') ''debug'' (Obj True) Config_new)) \<and>
   \<not> Config_has ''debug'' (Config_new :: bool Config) \<and>
   Config_remove ''debug'' (Config_new :: bool Config) = Config_new"
  using remove_then_absent
      [of "''debug''" "Config_set (named ''bool'') ''debug'' (Obj True) Config_new"]
    remove_then_absent [of "''debug''" "Config_new :: bool Config"]
  by (simp add: Config_has_def Config_new_def)

subsection \<open>Failed calls\<close>

text \<open>
  Claim C8: a call that fails leaves the store as it was. Whenever \<open>get<T>(k)\<close> or
  \<open>getOrDefault<T>(k, d)\<close> throws, and also when \<open>set\<close> does, the entries after the call are
  those before it, and the calls that follow return and leave what they would without the
  failed call.
\<close>

theorem failed_call_leaves_store:
  "fst (exec x c) = Inl e \<Longrightarrow>
   snd (exec x c) = c \<and>
   run (x # rest) c = run rest c \<and>
   outcomes (x # rest) c = Inl e # outcomes rest c"
  by (cases x) (auto split: option.splits)

theorem failed_call_leaves_store_witness:
  "fst (exec (Get (named ''std::string'') ''value'')
         (Config_set (named ''int'') ''value'' (Obj (42::int)) Config_new))
     = Inl TypeMismatchError \<and>
   snd (exec (Get (named ''std::string'') ''value'')
         (Config_set (named ''int'') ''value'' (Obj (42::int)) Config_new))
     = Config_set (named ''int'') ''value'' (Obj 42) Config_new \<and>
   outcomes [Get (named ''std::string'') ''value'', Get (named ''int'') ''value'']
       (Config_set (named ''int'') ''value'' (Obj (42::int)) Config_new)
     = [Inl TypeMismatchError, Inr (Value (Obj 42))] \<and>
   run [Set (named ''Widget'') ''value''
          (Argument (Obj 7) (Some (runtime_error ''copy failed'')))]
       (Config_set (named ''int'') ''value'' (Obj (42::int)) Config_new)
     = Config_set (named ''int'') ''value'' (Obj (42::int)) Config_new"
proof -
  have thrown:
    "fst (exec (Set (named ''Widget'') ''value''
                 (Argument (Obj 7) (Some (runtime_error ''copy failed''))))
           (Config_set (named ''int'') ''value'' (Obj (42::int)) Config_new))
       = Inl (runtime_error ''copy failed'')"
    by simp
  have failed:
    "fst (exec (Get (named ''std::string'') ''value'')
           (Config_set (named ''int'') ''value'' (Obj (42::int)) Config_new))
       = Inl TypeMismatchError"
    by (simp add: get_set_same named_def)
  have after:
    "outcomes [Get (named ''int'') ''value'']
        (Config_set (named ''int'') ''value'' (Obj (42::int)) Config_new)
       = [Inr (Value (Obj 42))]"
    by (simp add: get_set_same make_decayed_def named_def)
  show ?thesis
    using failed_call_leaves_store [OF failed, of "[Get (named ''int'') ''value'']"]
      failed_call_leaves_store [OF thrown, of "[]"] failed after
    by simp
qed

subsection \<open>Decayed types\<close>




subsection \<open>Other keys\<close>

text \<open>
  Claim C10: \<open>set(k, v)\<close> and \<open>remove(k)\<close> touch no other key: for every store and every key
  \<open>k'\<close> other than \<open>k\<close>, the entry of \<open>k'\<close>, \<open>has(k')\<close> and the result of \<open>get<T'>(k')\<close> for
  every \<open>T'\<close> are after the call what they were before.
\<close>

theorem other_keys_unchanged:
  "k' \<noteq> k \<Longrightarrow>
   m_values (Config_set T k v c) k' = m_values c k' \<and>
   Config_has k' (Config_set T k v c) = Config_has k' c \<and>
   Config_get T' k' (Config_set T k v c) = Config_get T' k' c \<and>
   m_values (Config_remove k c) k' = m_values c k' \<and>
   Config_has k' (Config_remove k c) = Config_has k' c \<and>
   Config_get T' k' (Config_remove k c) = Config_get T' k' c"
  by (simp add: Config_has_def Config_get_def values_set Config_remove_def)

theorem other_keys_unchanged_witness:
  "''name'' \<noteq> ''debug'' \<and>
   Config_get (named ''std::string'') ''name''
     (Config_set (named ''bool'') ''debug'' (Obj (Inl True))
       (Config_set (named ''std::string'') ''name'' (Obj (Inr ''TestApp'')) Config_new))
   = Inr (Obj (Inr ''TestApp'' :: bool + string)) \<and>
   Config_get (named ''std::string'') ''name''
     (Config_remove ''debug''
       (Config_set (named ''std::string'') ''name'' (Obj (Inr ''TestApp'')) Config_new))
   = Inr (Obj (Inr ''TestApp'' :: bool + string))"
proof -
  have ne: "''name'' \<noteq> ''debug''" by simp
  have before:
    "Config_get (named ''std::string'') ''name''
       (Config_set (named ''std::string'') ''name'' (Obj (Inr ''TestApp'')) Config_new)
     = Inr (Obj (Inr ''TestApp'' :: bool + string))"
    by (simp add: get_set_same make_decayed_def named_def)
  show ?thesis
    using other_keys_unchanged
      [OF ne, of "named ''bool''" "Obj (Inl True)"
          "Config_set (named ''std::string'') ''name'' (Obj (Inr ''TestApp'')) Config_new"
          "named ''std::string''"]
      before
    by simp
qed

end
